theory Spec2Isabelle
  imports Main
begin

section \<open>JavaScript string primitives used by the validator\<close>

text \<open>
  Strings are lists of characters. The inputs of interest (IP literals, host names,
  API keys) are ASCII, so lower-casing is modelled on the letters A to Z and is the
  identity on every other character.
\<close>

definition upper_letters :: string where
  "upper_letters = ''ABCDEFGHIJKLMNOPQRSTUVWXYZ''"

definition lower_letters :: string where
  "lower_letters = ''abcdefghijklmnopqrstuvwxyz''"

definition toLowerChar :: "char \<Rightarrow> char" where
  "toLowerChar c = (case map_of (zip upper_letters lower_letters) c of
                      Some l \<Rightarrow> l
                    | None \<Rightarrow> c)"

definition toLowerCase :: "string \<Rightarrow> string" where
  "toLowerCase s = map toLowerChar s"

text \<open>\<^verbatim>\<open>s.startsWith(p)\<close>, which is also what a regular expression \<^verbatim>\<open>/^p/\<close> over a
  literal \<^verbatim>\<open>p\<close> tests.\<close>

definition startsWith :: "string \<Rightarrow> string \<Rightarrow> bool" where
  "startsWith s p = (take (length p) s = p)"

text \<open>\<^verbatim>\<open>s.includes(sub)\<close>: some suffix of \<open>s\<close> starts with \<open>sub\<close>.\<close>

fun includesStr :: "string \<Rightarrow> string \<Rightarrow> bool" where
  "includesStr [] sub = (sub = [])"
| "includesStr (c # cs) sub = (startsWith (c # cs) sub \<or> includesStr cs sub)"

text \<open>\<^verbatim>\<open>s.replace(/^\[|\]$/g, '')\<close>: one leading opening bracket and one trailing
  closing bracket are removed, each only when present.\<close>

definition stripBrackets :: "string \<Rightarrow> string" where
  "stripBrackets s =
     (let s1 = (case s of [] \<Rightarrow> [] | c # cs \<Rightarrow> if c = CHR ''['' then cs else s)
      in if s1 \<noteq> [] \<and> last s1 = CHR '']'' then butlast s1 else s1)"

section \<open>The blocked-address predicate\<close>

text \<open>The character classes of \<^verbatim>\<open>/^172\.(1[6-9]|2[0-9]|3[0-1])\./\<close>.\<close>

definition matches172 :: "string \<Rightarrow> bool" where
  "matches172 s =
     (case s of
        a # b # c # d # e # f # g # _ \<Rightarrow>
          [a, b, c, d] = ''172.'' \<and> g = CHR ''.'' \<and>
          ((e = CHR ''1'' \<and> f \<in> set ''6789'') \<or>
           (e = CHR ''2'' \<and> f \<in> set ''0123456789'') \<or>
           (e = CHR ''3'' \<and> f \<in> set ''01''))
      | _ \<Rightarrow> False)"

text \<open>\<^verbatim>\<open>blockedPatterns.some(pattern => pattern.test(cleanIP))\<close>, the ten patterns in
  the order of the source.\<close>

definition blockedPatterns :: "string \<Rightarrow> bool" where
  "blockedPatterns cleanIP =
     (startsWith cleanIP ''127.'' \<or>
      startsWith cleanIP ''10.'' \<or>
      matches172 cleanIP \<or>
      startsWith cleanIP ''192.168.'' \<or>
      startsWith cleanIP ''169.254.'' \<or>
      startsWith cleanIP ''0.'' \<or>
      cleanIP = ''::1'' \<or>
      startsWith cleanIP ''fe80:'' \<or>
      startsWith cleanIP ''fc00:'' \<or>
      startsWith cleanIP ''fd00:'')"

text \<open>Everything in \<^verbatim>\<open>isBlockedIP\<close> after the computation of \<^verbatim>\<open>cleanIP\<close> (and, in the
  TypeScript source, after the unwrapping of mapped addresses): the localhost
  variations, the metadata endpoints, the patterns.\<close>

definition blockedClean :: "string \<Rightarrow> bool" where
  "blockedClean cleanIP =
     (if cleanIP = ''localhost'' \<or> cleanIP = ''127.0.0.1'' \<or> cleanIP = ''::1'' then True
      else if cleanIP \<in> set [''metadata.google.internal'', ''metadata'', ''169.254.169.254'']
        then True
      else blockedPatterns cleanIP)"

text \<open>\<^verbatim>\<open>isBlockedIP\<close> of \<^verbatim>\<open>utils.js\<close> (the JavaScript file at the top of the
  repository).\<close>

definition isBlockedIP_js :: "string \<Rightarrow> bool" where
  "isBlockedIP_js ip = blockedClean (stripBrackets ip)"

text \<open>\<^verbatim>\<open>isBlockedIP\<close> of the TypeScript source: an address whose cleaned, lower-cased
  text starts with \<^verbatim>\<open>::ffff:\<close> is unwrapped (\<^verbatim>\<open>cleanIP.substring(7)\<close>) and checked
  recursively.\<close>

function isBlockedIP_ts :: "string \<Rightarrow> bool" where
  "isBlockedIP_ts ip =
     (let cleanIP = stripBrackets ip
      in if startsWith (toLowerCase cleanIP) ''::ffff:''
         then isBlockedIP_ts (drop 7 cleanIP)
         else blockedClean cleanIP)"
  by pat_completeness auto
termination
proof (relation "measure length")
  show "wf (measure (length :: string \<Rightarrow> nat))" by simp
next
  fix ip :: string and cleanIP :: string
  assume c: "cleanIP = stripBrackets ip"
    and p: "startsWith (toLowerCase cleanIP) ''::ffff:''"
  have "length (take (length ''::ffff:'') (toLowerCase cleanIP)) = length ''::ffff:''"
    using p unfolding startsWith_def by (rule arg_cong)
  then have l7: "7 \<le> length cleanIP"
    by (simp add: toLowerCase_def)
  have "length (stripBrackets ip) \<le> length ip"
    by (cases ip) (auto simp add: stripBrackets_def Let_def)
  with c l7 show "(drop 7 cleanIP, ip) \<in> measure length"
    by simp
qed

section \<open>The URL validator\<close>

text \<open>
  \<^verbatim>\<open>validateImageUrl\<close> calls four functions that are not code of the repository: the
  URL parser (\<^verbatim>\<open>new URL\<close>), \<^verbatim>\<open>isIPv4\<close> and \<^verbatim>\<open>isIPv6\<close> of \<^verbatim>\<open>net\<close>, and \<^verbatim>\<open>lookup\<close> of
  \<^verbatim>\<open>dns/promises\<close>. They are the fields of the environment \<open>url_env\<close>. A parser that
  throws is \<open>None\<close>; a lookup that rejects is \<open>Inl\<close> of the thrown object.
\<close>

record parsed_url =
  protocol :: string
  hostname :: string

text \<open>A thrown object as the \<^verbatim>\<open>catch\<close> block of the validator reads it: its \<^verbatim>\<open>code\<close>
  and its \<^verbatim>\<open>message\<close>, either of which may be undefined.\<close>

datatype thrown = Thrown (thrown_code: "string option") (thrown_message: "string option")

record url_env =
  parseURL :: "string \<Rightarrow> parsed_url option"
  isIPv4 :: "string \<Rightarrow> bool"
  isIPv6 :: "string \<Rightarrow> bool"
  lookup :: "string \<Rightarrow> thrown + string"

text \<open>The errors of the validator, one constructor for each \<^verbatim>\<open>throw\<close>:
  \<open>MalformedUrl\<close> is \<^verbatim>\<open>Invalid URL: ${url}\<close>,
  \<open>NonHttpsScheme\<close> is \<^verbatim>\<open>Only HTTPS URLs are allowed for security reasons\<close>,
  \<open>BlockedHost\<close> is \<^verbatim>\<open>Access to cloud metadata endpoints is not allowed\<close>,
  \<open>BlockedLiteralIP\<close> is \<^verbatim>\<open>Access to internal/private IP addresses is not allowed\<close>,
  \<open>UnresolvableDomain\<close> is \<^verbatim>\<open>Domain ${hostname} could not be resolved\<close>,
  \<open>Rethrown\<close> is the caught object thrown again as it is, and
  \<open>ResolverFailure\<close> is \<^verbatim>\<open>Failed to validate domain ${hostname}: ${err.message}\<close>.\<close>

datatype validation_error =
    MalformedUrl string
  | NonHttpsScheme
  | BlockedHost
  | BlockedLiteralIP
  | UnresolvableDomain string
  | Rethrown thrown
  | ResolverFailure string "string option"

text \<open>The error the \<^verbatim>\<open>try\<close> block throws itself when the resolved address is blocked:
  an \<^verbatim>\<open>Error\<close> with no code.\<close>

definition resolvesInternal :: "string \<Rightarrow> thrown" where
  "resolvesInternal host =
     Thrown None (Some (''Domain '' @ host @ '' resolves to internal/private IP address''))"

text \<open>The \<^verbatim>\<open>catch\<close> block around the lookup. It receives the lookup's own failures and
  the error above alike.\<close>

definition lookupCatch :: "string \<Rightarrow> thrown \<Rightarrow> validation_error" where
  "lookupCatch host err =
     (if thrown_code err = Some ''ENOTFOUND'' then UnresolvableDomain host
      else if (case thrown_message err of
                 None \<Rightarrow> False
               | Some m \<Rightarrow> m \<noteq> [] \<and> includesStr m ''resolves to internal'')
        then Rethrown err
      else ResolverFailure host (thrown_message err))"

text \<open>\<^verbatim>\<open>validateImageUrl\<close>. The JavaScript and the TypeScript text of the function are the
  same statement for statement; each calls the \<^verbatim>\<open>isBlockedIP\<close> of its own file, the
  first argument here.\<close>

definition validateImageUrl_with ::
  "(string \<Rightarrow> bool) \<Rightarrow> url_env \<Rightarrow> string \<Rightarrow> validation_error + string" where
  "validateImageUrl_with blocked env url =
     (case parseURL env url of
        None \<Rightarrow> Inl (MalformedUrl url)
      | Some parsed \<Rightarrow>
          if protocol parsed \<noteq> ''https:'' then Inl NonHttpsScheme
          else
            let host = toLowerCase (hostname parsed);
                cleanHostname = stripBrackets host
            in if cleanHostname \<in> set [''localhost'', ''metadata.google.internal'', ''metadata'']
               then Inl BlockedHost
               else if isIPv4 env cleanHostname \<or> isIPv6 env cleanHostname
               then (if blocked cleanHostname then Inl BlockedLiteralIP else Inr url)
               else (case lookup env host of
                       Inl err \<Rightarrow> Inl (lookupCatch host err)
                     | Inr address \<Rightarrow>
                         if blocked address then Inl (lookupCatch host (resolvesInternal host))
                         else Inr url))"

definition validateImageUrl_js :: "url_env \<Rightarrow> string \<Rightarrow> validation_error + string" where
  "validateImageUrl_js = validateImageUrl_with isBlockedIP_js"

definition validateImageUrl_ts :: "url_env \<Rightarrow> string \<Rightarrow> validation_error + string" where
  "validateImageUrl_ts = validateImageUrl_with isBlockedIP_ts"

text \<open>Decimal text of a number, as template literals print an integer.\<close>

definition digitChar :: "nat \<Rightarrow> char" where
  "digitChar d = ''0123456789'' ! d"

function showNat :: "nat \<Rightarrow> string" where
  "showNat n = (if n < 10 then [digitChar n] else showNat (n div 10) @ [digitChar (n mod 10)])"
  by pat_completeness auto
termination
  by (relation "measure id") auto

text \<open>The dotted text of the IPv4 address with the four octets \<open>a\<close>, \<open>b\<close>, \<open>c\<close>, \<open>d\<close>.\<close>

definition ipv4Text :: "nat \<Rightarrow> nat \<Rightarrow> nat \<Rightarrow> nat \<Rightarrow> string" where
  "ipv4Text a b c d = showNat a @ ''.'' @ showNat b @ ''.'' @ showNat c @ ''.'' @ showNat d"

section \<open>The client and its request dispatcher\<close>

text \<open>
  The client object of \<^verbatim>\<open>video-api.js\<close>, without its logger. Times are milliseconds
  as \<^verbatim>\<open>Date.now()\<close> counts them; \<^verbatim>\<open>lastRequestTime\<close> holds either the initial zero or
  a reading of that clock.
\<close>

record client =
  apiKey :: string
  baseUrl :: string
  rateLimitDelay :: int
  lastRequestTime :: nat

text \<open>The options of the constructor; \<open>None\<close> is an option left out, which takes the
  default of the parameter list (\<^verbatim>\<open>apiKey = null\<close>, \<^verbatim>\<open>baseUrl = BASE_URL\<close>,
  \<^verbatim>\<open>rateLimitDelay = 1000\<close>).\<close>

record client_options =
  opt_apiKey :: "string option"
  opt_baseUrl :: "string option"
  opt_rateLimitDelay :: "int option"

definition BASE_URL :: string where
  "BASE_URL = ''https://api.openai.com''"

text \<open>\<open>HttpsRequired\<close> is \<^verbatim>\<open>API base URL must use HTTPS protocol for security\<close>;
  \<open>ApiKeyNotFound\<close> is the error of \<^verbatim>\<open>getOpenAIApiKey\<close>.\<close>

datatype construct_error = HttpsRequired | ApiKeyNotFound

text \<open>\<^verbatim>\<open>getOpenAIApiKey()\<close> called with no argument: the environment variable
  \<^verbatim>\<open>OPENAI_API_KEY\<close>, which must be set and not empty.\<close>

definition getOpenAIApiKey :: "string option \<Rightarrow> construct_error + string" where
  "getOpenAIApiKey envKey =
     (case envKey of
        None \<Rightarrow> Inl ApiKeyNotFound
      | Some k \<Rightarrow> if k = [] then Inl ApiKeyNotFound else Inr k)"

text \<open>The constructor. \<^verbatim>\<open>baseUrl && !baseUrl.startsWith('https://')\<close>: an empty string
  is falsy, so the test is made on a base URL that is not empty.\<close>

definition newClient :: "string option \<Rightarrow> client_options \<Rightarrow> construct_error + client" where
  "newClient envKey opts =
     (let url = (case opt_baseUrl opts of None \<Rightarrow> BASE_URL | Some b \<Rightarrow> b);
          delay = (case opt_rateLimitDelay opts of None \<Rightarrow> 1000 | Some d \<Rightarrow> d)
      in if url \<noteq> [] \<and> \<not> startsWith url ''https://'' then Inl HttpsRequired
         else
           case (case opt_apiKey opts of
                   None \<Rightarrow> getOpenAIApiKey envKey
                 | Some k \<Rightarrow> if k = [] then getOpenAIApiKey envKey else Inr k) of
             Inl e \<Rightarrow> Inl e
           | Inr k \<Rightarrow>
               Inr \<lparr>apiKey = k, baseUrl = url, rateLimitDelay = delay, lastRequestTime = 0\<rparr>)"

text \<open>\<^verbatim>\<open>_redactApiKey\<close>; \<open>None\<close> is a key that is \<^verbatim>\<open>null\<close>. \<^verbatim>\<open>apiKey.slice(-4)\<close> is the
  text from position \<open>length - 4\<close> on.\<close>

definition redactApiKey :: "string option \<Rightarrow> string" where
  "redactApiKey k =
     (case k of
        None \<Rightarrow> ''[REDACTED]''
      | Some key \<Rightarrow>
          if key = [] \<or> length key < 8 then ''[REDACTED]''
          else ''sk-...'' @ drop (length key - 4) key)"

text \<open>The error object that reaches the \<^verbatim>\<open>catch\<close> block of \<^verbatim>\<open>_makeRequest\<close>:
  \<^verbatim>\<open>error.name\<close>, \<^verbatim>\<open>error.code\<close>, \<^verbatim>\<open>error.message\<close> and \<^verbatim>\<open>error.response\<close>; of the
  response, \<^verbatim>\<open>status\<close> and \<^verbatim>\<open>data?.error?.message\<close>.\<close>

record http_response =
  resp_status :: nat
  resp_detail :: "string option"

record request_error =
  err_name :: string
  err_code :: "string option"
  err_message :: string
  err_response :: "http_response option"

text \<open>The table \<^verbatim>\<open>genericMessages\<close>.\<close>

definition genericMessages :: "(nat \<times> string) list" where
  "genericMessages =
     [(400, ''Invalid request parameters''),
      (401, ''Authentication failed''),
      (403, ''Access forbidden''),
      (404, ''Resource not found''),
      (429, ''Rate limit exceeded''),
      (500, ''Service error''),
      (502, ''Service temporarily unavailable''),
      (503, ''Service temporarily unavailable'')]"

text \<open>\<^verbatim>\<open>_sanitizeErrorMessage\<close>; the first argument is \<^verbatim>\<open>process.env.NODE_ENV\<close>. In
  \<^verbatim>\<open>a || b\<close> an undefined or empty \<open>a\<close> gives \<open>b\<close>.\<close>

definition sanitizeErrorMessage :: "string option \<Rightarrow> request_error \<Rightarrow> nat \<Rightarrow> string" where
  "sanitizeErrorMessage nodeEnv error status =
     (if nodeEnv = Some ''production''
      then (case map_of genericMessages status of
              Some m \<Rightarrow> m
            | None \<Rightarrow> ''An error occurred'')
      else (case (case err_response error of None \<Rightarrow> None | Some r \<Rightarrow> resp_detail r) of
              None \<Rightarrow> err_message error
            | Some d \<Rightarrow> if d = [] then err_message error else d))"

text \<open>The errors \<^verbatim>\<open>_makeRequest\<close> throws, one constructor for each \<^verbatim>\<open>throw\<close> of its
  \<^verbatim>\<open>catch\<close> block; \<open>errorText\<close> is the message of each.\<close>

datatype api_error =
    Cancelled
  | Unauthorized
  | BadRequest string
  | NotFound string
  | RateLimited
  | ServiceUnavailable
  | Unclassified nat string
  | Network string

fun errorText :: "api_error \<Rightarrow> string" where
  "errorText Cancelled = ''Request was cancelled''"
| "errorText Unauthorized = ''Authentication failed. Please check your API key.''"
| "errorText (BadRequest m) = ''Bad request: '' @ m"
| "errorText (NotFound m) = ''Resource not found: '' @ m"
| "errorText RateLimited = ''Rate limit exceeded. Please try again later.''"
| "errorText ServiceUnavailable = ''OpenAI service error. Please try again later.''"
| "errorText (Unclassified status m) = ''API error ('' @ showNat status @ ''): '' @ m"
| "errorText (Network m) = ''Request failed: '' @ m"

text \<open>The test that opens the \<^verbatim>\<open>catch\<close> block.\<close>

definition isCancellation :: "request_error \<Rightarrow> bool" where
  "isCancellation error =
     (err_name error = ''CanceledError'' \<or> err_code error = Some ''ERR_CANCELED'')"

text \<open>The \<^verbatim>\<open>catch\<close> block of \<^verbatim>\<open>_makeRequest\<close>.\<close>

definition classifyError :: "string option \<Rightarrow> request_error \<Rightarrow> api_error" where
  "classifyError nodeEnv error =
     (if isCancellation error then Cancelled
      else
        case err_response error of
          Some r \<Rightarrow>
            let status = resp_status r;
                sanitizedMessage = sanitizeErrorMessage nodeEnv error status
            in if status = 401 then Unauthorized
               else if status = 400 then BadRequest sanitizedMessage
               else if status = 404 then NotFound sanitizedMessage
               else if status = 429 then RateLimited
               else if status = 500 \<or> status = 502 \<or> status = 503 then ServiceUnavailable
               else Unclassified status sanitizedMessage
        | None \<Rightarrow> Network (err_message error))"

text \<open>The pacing test at the head of \<^verbatim>\<open>_makeRequest\<close>, at the clock reading \<open>now\<close>:
  the delay to wait, or \<open>None\<close> when the request goes out at once.\<close>

definition pacingWait :: "client \<Rightarrow> nat \<Rightarrow> nat option" where
  "pacingWait c now =
     (let timeSinceLastRequest = int now - int (lastRequestTime c)
      in if lastRequestTime c > 0 \<and> timeSinceLastRequest < rateLimitDelay c
         then Some (nat (rateLimitDelay c - timeSinceLastRequest))
         else None)"

text \<open>The first statements of \<^verbatim>\<open>_makeRequest\<close>, up to the assignment of
  \<^verbatim>\<open>lastRequestTime\<close>. The clock reads \<open>now\<close> on entry. It is read a second time for
  the assignment, after the wait if there is one; \<open>late\<close> is the time that passes
  between the two readings beyond the wait asked for. The result is the client and
  the second reading.\<close>

definition rateLimit :: "client \<Rightarrow> nat \<Rightarrow> nat \<Rightarrow> client \<times> nat" where
  "rateLimit c now late =
     (let t = (case pacingWait c now of
                 None \<Rightarrow> now + late
               | Some delay \<Rightarrow> now + delay + late)
      in (c\<lparr>lastRequestTime := t\<rparr>, t))"




section \<open>The polling loop\<close>

text \<open>What the loop reads of the job object: \<^verbatim>\<open>status\<close>, \<^verbatim>\<open>progress\<close> and
  \<^verbatim>\<open>error?.message\<close>.\<close>

record video =
  vid_status :: string
  vid_progress :: "nat option"
  vid_error :: "string option"

text \<open>The errors of \<^verbatim>\<open>pollVideoWithProgress\<close>:
  \<open>PollCancelled\<close> is \<^verbatim>\<open>Video generation was cancelled\<close>,
  \<open>PollTimedOut timeout\<close> is \<^verbatim>\<open>Video generation timed out after ${timeout / 1000}s\<close>,
  \<open>PollJobFailed\<close> carries the message of the failed job, and
  \<open>PollFetchError\<close> is an error thrown by \<^verbatim>\<open>api.retrieveVideo\<close>, which the loop lets
  through.\<close>

datatype poll_error =
    PollCancelled
  | PollTimedOut nat
  | PollJobFailed string
  | PollFetchError api_error

text \<open>
  The world of one polling session. Time passes only while the loop is suspended: in
  the \<open>i\<close>-th call of \<^verbatim>\<open>api.retrieveVideo\<close>, for \<open>fetchLatency i\<close> milliseconds, and in
  the \<open>i\<close>-th \<^verbatim>\<open>pause\<close>, for the interval asked for and \<open>timerLate i\<close> milliseconds
  more. \<open>fetchResult i\<close> is what the \<open>i\<close>-th call returns or throws. The cancellation
  signal is given by the time at which it is aborted, if ever: \<^verbatim>\<open>signal?.aborted\<close> is
  true from that time on (\<open>None\<close> also stands for a session without a signal).
\<close>

record poll_env =
  fetchLatency :: "nat \<Rightarrow> nat"
  fetchResult :: "nat \<Rightarrow> api_error + video"
  timerLate :: "nat \<Rightarrow> nat"
  abortAt :: "nat option"

definition signalAborted :: "poll_env \<Rightarrow> nat \<Rightarrow> bool" where
  "signalAborted env t = (case abortAt env of None \<Rightarrow> False | Some a \<Rightarrow> a \<le> t)"

text \<open>The state of the session: the clock, and the clock readings at which
  \<^verbatim>\<open>api.retrieveVideo\<close> has been called so far, oldest first.\<close>

record poll_state =
  clock :: nat
  fetchTimes :: "nat list"

text \<open>\<^verbatim>\<open>video.error?.message || 'Video generation failed'\<close>.\<close>

definition failureMessage :: "video \<Rightarrow> string" where
  "failureMessage v =
     (case vid_error v of
        None \<Rightarrow> ''Video generation failed''
      | Some m \<Rightarrow> if m = [] then ''Video generation failed'' else m)"

text \<open>The \<^verbatim>\<open>while (true)\<close> loop of \<^verbatim>\<open>pollVideoWithProgress\<close>. The loop of the source has
  no bound, so the model counts iterations down from \<open>fuel\<close>: the outcome is \<open>None\<close>
  when the loop is still running after \<open>fuel\<close> iterations. The spinner only prints and
  is left out.\<close>

fun pollLoop ::
  "nat \<Rightarrow> poll_env \<Rightarrow> nat \<Rightarrow> nat \<Rightarrow> nat \<Rightarrow> poll_state \<Rightarrow> (poll_error + video) option \<times> poll_state"
  where
  "pollLoop 0 env interval timeout startTime s = (None, s)"
| "pollLoop (Suc fuel) env interval timeout startTime s =
     (if signalAborted env (clock s) then (Some (Inl PollCancelled), s)
      else
        let elapsed = clock s - startTime
        in if elapsed > timeout then (Some (Inl (PollTimedOut timeout)), s)
           else
             let i = length (fetchTimes s);
                 s1 = s\<lparr>clock := clock s + fetchLatency env i,
                        fetchTimes := fetchTimes s @ [clock s]\<rparr>
             in case fetchResult env i of
                  Inl e \<Rightarrow> (Some (Inl (PollFetchError e)), s1)
                | Inr v \<Rightarrow>
                    if vid_status v = ''completed'' then (Some (Inr v), s1)
                    else if vid_status v = ''failed''
                      then (Some (Inl (PollJobFailed (failureMessage v))), s1)
                    else pollLoop fuel env interval timeout startTime
                           (s1\<lparr>clock := clock s1 + interval + timerLate env i\<rparr>))"

text \<open>The options of a polling call; an option left out takes its default.\<close>

record poll_options =
  opt_interval :: "nat option"
  opt_timeout :: "nat option"

text \<open>\<^verbatim>\<open>pollVideoWithProgress\<close>, entered when the clock reads \<open>t0\<close>.\<close>

definition pollVideoWithProgress ::
  "nat \<Rightarrow> poll_env \<Rightarrow> poll_options \<Rightarrow> nat \<Rightarrow> (poll_error + video) option \<times> poll_state" where
  "pollVideoWithProgress fuel env options t0 =
     (let interval = (case opt_interval options of None \<Rightarrow> 10000 | Some i \<Rightarrow> i);
          timeout = (case opt_timeout options of None \<Rightarrow> 600000 | Some t \<Rightarrow> t);
          startTime = t0
      in pollLoop fuel env interval timeout startTime \<lparr>clock = t0, fetchTimes = []\<rparr>)"

text \<open>\<^verbatim>\<open>waitForVideo\<close>: the two checks of the method, then the loop.
  \<open>ApiKeyNotSet\<close> is the error of \<^verbatim>\<open>_verifyApiKey\<close>, \<open>VideoIdRequired\<close> is
  \<^verbatim>\<open>Video ID is required\<close>.\<close>

datatype wait_error = ApiKeyNotSet | VideoIdRequired | Poll poll_error

definition waitForVideo ::
  "nat \<Rightarrow> client \<Rightarrow> poll_env \<Rightarrow> string \<Rightarrow> poll_options \<Rightarrow> nat \<Rightarrow>
     (wait_error + video) option \<times> poll_state" where
  "waitForVideo fuel c env videoId options t0 =
     (if apiKey c = [] then (Some (Inl ApiKeyNotSet), \<lparr>clock = t0, fetchTimes = []\<rparr>)
      else if videoId = [] then (Some (Inl VideoIdRequired), \<lparr>clock = t0, fetchTimes = []\<rparr>)
      else
        case pollVideoWithProgress fuel env options t0 of
          (None, s) \<Rightarrow> (None, s)
        | (Some (Inl e), s) \<Rightarrow> (Some (Inl (Poll e)), s)
        | (Some (Inr v), s) \<Rightarrow> (Some (Inr v), s))"

section \<open>Concrete inputs\<close>

text \<open>A client as the constructor builds it from a key and the default options.\<close>

definition exampleOptions :: client_options where
  "exampleOptions = \<lparr>opt_apiKey = Some ''sk-key'', opt_baseUrl = None, opt_rateLimitDelay = None\<rparr>"

definition exampleClient :: client where
  "exampleClient = \<lparr>apiKey = ''sk-key'', baseUrl = ''https://api.openai.com'',
     rateLimitDelay = 1000, lastRequestTime = 0\<rparr>"



text \<open>Two errors as the transport throws them: a cancelled request, which has no
  response, and a 404 answer whose body carries a detail.\<close>

definition cancelledError :: request_error where
  "cancelledError = \<lparr>err_name = ''CanceledError'', err_code = Some ''ERR_CANCELED'',
     err_message = ''canceled'', err_response = None\<rparr>"

definition notFoundError :: request_error where
  "notFoundError = \<lparr>err_name = ''AxiosError'', err_code = Some ''ERR_BAD_REQUEST'',
     err_message = ''Request failed with status code 404'',
     err_response = Some \<lparr>resp_status = 404, resp_detail = Some ''Video not found''\<rparr>\<rparr>"

text \<open>A job that stays in progress, and three worlds around it: one where every call
  and every timer takes no time beyond what is asked, one whose signal is aborted from
  the start, and one whose signal is aborted at time 1150 while calls take 20 ms.\<close>

definition inProgress :: video where
  "inProgress = \<lparr>vid_status = ''in_progress'', vid_progress = Some 50, vid_error = None\<rparr>"

definition idleEnv :: poll_env where
  "idleEnv = \<lparr>fetchLatency = (\<lambda>i. 0), fetchResult = (\<lambda>i. Inr inProgress),
     timerLate = (\<lambda>i. 0), abortAt = None\<rparr>"

definition abortedEnv :: poll_env where
  "abortedEnv = \<lparr>fetchLatency = (\<lambda>i. 0), fetchResult = (\<lambda>i. Inr inProgress),
     timerLate = (\<lambda>i. 0), abortAt = Some 0\<rparr>"

definition abortLaterEnv :: poll_env where
  "abortLaterEnv = \<lparr>fetchLatency = (\<lambda>i. 20), fetchResult = (\<lambda>i. Inr inProgress),
     timerLate = (\<lambda>i. 0), abortAt = Some 1150\<rparr>"

text \<open>The options \<^verbatim>\<open>{ interval: 100, timeout: 200 }\<close>.\<close>

definition shortOptions :: poll_options where
  "shortOptions = \<lparr>opt_interval = Some 100, opt_timeout = Some 200\<rparr>"

text \<open>A URL whose host is the mapped form of 10.0.0.1. The URL parser of Node writes an
  IPv6 host in hexadecimal groups: for this URL it hands over the host
  \<^verbatim>\<open>[::ffff:a00:1]\<close>, which \<^verbatim>\<open>isIPv6\<close> recognises when the brackets are off.\<close>

definition mappedUrl :: string where
  "mappedUrl = ''https://[::ffff:10.0.0.1]/image.png''"

definition mappedLiteralEnv :: url_env where
  "mappedLiteralEnv =
     \<lparr>parseURL = (\<lambda>url. if url = mappedUrl
                          then Some \<lparr>protocol = ''https:'', hostname = ''[::ffff:a00:1]''\<rparr>
                          else None),
      isIPv4 = (\<lambda>h. False),
      isIPv6 = (\<lambda>h. h = ''::ffff:a00:1''),
      lookup = (\<lambda>h. Inl (Thrown (Some ''ENOTFOUND'') None))\<rparr>"

text \<open>A domain name that resolves to the mapped form of 10.0.0.1.\<close>

definition evilUrl :: string where
  "evilUrl = ''https://evil.com/image.jpg''"

definition mappedDnsEnv :: url_env where
  "mappedDnsEnv =
     \<lparr>parseURL = (\<lambda>url. if url = evilUrl
                          then Some \<lparr>protocol = ''https:'', hostname = ''evil.com''\<rparr>
                          else None),
      isIPv4 = (\<lambda>h. False),
      isIPv6 = (\<lambda>h. False),
      lookup = (\<lambda>h. if h = ''evil.com'' then Inr ''::ffff:10.0.0.1''
                      else Inl (Thrown (Some ''ENOTFOUND'') None))\<rparr>"

text \<open>A URL whose host is a unique-local IPv6 address, of \<^verbatim>\<open>fd00::/8\<close>.\<close>

definition uniqueLocalUrl :: string where
  "uniqueLocalUrl = ''https://[fd12:3456:789a:1::1]/image.png''"

definition uniqueLocalEnv :: url_env where
  "uniqueLocalEnv =
     \<lparr>parseURL = (\<lambda>url. if url = uniqueLocalUrl
                          then Some \<lparr>protocol = ''https:'', hostname = ''[fd12:3456:789a:1::1]''\<rparr>
                          else None),
      isIPv4 = (\<lambda>h. False),
      isIPv6 = (\<lambda>h. h = ''fd12:3456:789a:1::1''),
      lookup = (\<lambda>h. Inl (Thrown (Some ''ENOTFOUND'') None))\<rparr>"

declare isBlockedIP_ts.simps [simp del]
declare showNat.simps [simp del]

section \<open>Properties of the validator\<close>

subsection \<open>The text of an IPv4 address\<close>

lemma digitChar_digit: "d < 10 \<Longrightarrow> digitChar d \<in> set ''0123456789''"
  unfolding digitChar_def by (rule nth_mem) simp

lemma showNat_nonempty: "showNat n \<noteq> []"
  by (subst showNat.simps) simp

lemma showNat_last: "last (showNat n) = digitChar (n mod 10)"
  by (subst showNat.simps) simp

lemma showNat_hd: "hd (showNat n) \<in> set ''0123456789''"
proof (induction n rule: showNat.induct)
  case (1 n)
  show ?case
  proof (cases "n < 10")
    case True
    then have "showNat n = [digitChar n]" by (subst showNat.simps) simp
    with True digitChar_digit [of n] show ?thesis by simp
  next
    case False
    then have "showNat n = showNat (n div 10) @ [digitChar (n mod 10)]"
      by (subst showNat.simps) simp
    then have "hd (showNat n) = hd (showNat (n div 10))"
      using showNat_nonempty [of "n div 10"] by simp
    with 1 False show ?thesis by simp
  qed
qed

lemma stripBrackets_id:
  "s \<noteq> [] \<Longrightarrow> hd s \<noteq> CHR ''['' \<Longrightarrow> last s \<noteq> CHR '']'' \<Longrightarrow> stripBrackets s = s"
  by (cases s) (simp_all add: stripBrackets_def)


lemma toLowerCase_digits: "map toLowerChar ''0123456789'' = ''0123456789''"
  by (simp add: toLowerChar_def upper_letters_def lower_letters_def)

lemma toLowerChar_digit:
  assumes "c \<in> set ''0123456789''"
  shows "toLowerChar c = c"
proof -
  have "map toLowerChar ''0123456789'' = map (\<lambda>x. x) ''0123456789''"
    unfolding list.map_ident by (rule toLowerCase_digits)
  then have "\<forall>x \<in> set ''0123456789''. toLowerChar x = x"
    by (simp only: map_eq_conv)
  with assms show ?thesis by blast
qed

lemma digit_not_colon: "c \<in> set ''0123456789'' \<Longrightarrow> c \<noteq> CHR '':''"
  by auto

lemma not_mapped_digit:
  assumes "s \<noteq> []" and "hd s \<in> set ''0123456789''"
  shows "\<not> startsWith (toLowerCase s) ''::ffff:''"
proof (cases s)
  case Nil
  with assms(1) show ?thesis by simp
next
  case (Cons c cs)
  with assms(2) have c: "c \<in> set ''0123456789''" by simp
  then have "toLowerChar c = c" by (rule toLowerChar_digit)
  moreover from c have "c \<noteq> CHR '':''" by (rule digit_not_colon)
  ultimately show ?thesis by (simp add: Cons startsWith_def toLowerCase_def)
qed

subsection \<open>The private IPv4 ranges\<close>

text \<open>A text that starts with a digit and does not end with a closing bracket is its
  own cleaned form and is not taken for a mapped address; when one of the patterns
  matches it, both copies of the predicate block it.\<close>

lemma blockedPatterns_blocked:
  assumes ne: "s \<noteq> []" and h: "hd s \<in> set ''0123456789''" and l: "last s \<noteq> CHR '']''"
    and p: "blockedPatterns s"
  shows "isBlockedIP_js s \<and> isBlockedIP_ts s"
proof -
  from h have "hd s \<noteq> CHR ''[''" by auto
  with ne l have st: "stripBrackets s = s" by (simp add: stripBrackets_id)
  from p have bc: "blockedClean s" by (simp add: blockedClean_def)
  from ne h have "\<not> startsWith (toLowerCase s) ''::ffff:''" by (rule not_mapped_digit)
  with st bc show ?thesis by (simp add: isBlockedIP_js_def isBlockedIP_ts.simps)
qed

lemma ipv4Text_shape:
  "ipv4Text a b c d \<noteq> [] \<and> hd (ipv4Text a b c d) \<in> set ''0123456789'' \<and>
   last (ipv4Text a b c d) \<noteq> CHR '']''"
proof -
  have "hd (ipv4Text a b c d) = hd (showNat a)"
    using showNat_nonempty [of a] by (simp add: ipv4Text_def)
  moreover have "last (ipv4Text a b c d) = digitChar (d mod 10)"
    using showNat_nonempty [of d] by (simp add: ipv4Text_def showNat_last)
  moreover have "digitChar (d mod 10) \<in> set ''0123456789''" by (rule digitChar_digit) simp
  ultimately show ?thesis using showNat_hd [of a] showNat_nonempty [of a]
    by (auto simp add: ipv4Text_def)
qed

lemma showNat_values:
  "showNat 0 = ''0''" "showNat 10 = ''10''" "showNat 127 = ''127''" "showNat 169 = ''169''"
  "showNat 172 = ''172''" "showNat 192 = ''192''" "showNat 168 = ''168''" "showNat 254 = ''254''"
  by code_simp+

lemma showNat_16_31_values:
  "showNat 16 = ''16''" "showNat 17 = ''17''" "showNat 18 = ''18''" "showNat 19 = ''19''"
  "showNat 20 = ''20''" "showNat 21 = ''21''" "showNat 22 = ''22''" "showNat 23 = ''23''"
  "showNat 24 = ''24''" "showNat 25 = ''25''" "showNat 26 = ''26''" "showNat 27 = ''27''"
  "showNat 28 = ''28''" "showNat 29 = ''29''" "showNat 30 = ''30''" "showNat 31 = ''31''"
  by code_simp+

lemma showNat_16_31:
  assumes "16 \<le> b" and "b \<le> 31"
  shows "showNat b \<in> set [''16'', ''17'', ''18'', ''19'', ''20'', ''21'', ''22'', ''23'', ''24'',
       ''25'', ''26'', ''27'', ''28'', ''29'', ''30'', ''31'']"
proof -
  from assms have "b = 16 \<or> b = 17 \<or> b = 18 \<or> b = 19 \<or> b = 20 \<or> b = 21 \<or> b = 22 \<or> b = 23 \<or>
      b = 24 \<or> b = 25 \<or> b = 26 \<or> b = 27 \<or> b = 28 \<or> b = 29 \<or> b = 30 \<or> b = 31"
    by arith
  then show ?thesis
    using showNat_16_31_values by (elim disjE) simp_all
qed

lemma ipv4_patterns:
  assumes "a = 127 \<or> a = 10 \<or> a = 0 \<or> (a = 172 \<and> 16 \<le> b \<and> b \<le> 31) \<or>
      (a = 192 \<and> b = 168) \<or> (a = 169 \<and> b = 254)"
  shows "blockedPatterns (ipv4Text a b c d)"
proof -
  consider "a = 127" | "a = 10" | "a = 0" | "a = 172" "16 \<le> b" "b \<le> 31"
    | "a = 192" "b = 168" | "a = 169" "b = 254"
    using assms by blast
  then show ?thesis
  proof cases
    case 1
    then show ?thesis
      by (simp add: ipv4Text_def showNat_values blockedPatterns_def startsWith_def)
  next
    case 2
    then show ?thesis
      by (simp add: ipv4Text_def showNat_values blockedPatterns_def startsWith_def)
  next
    case 3
    then show ?thesis
      by (simp add: ipv4Text_def showNat_values blockedPatterns_def startsWith_def)
  next
    case 4
    from 4 showNat_16_31 [of b] have "matches172 (ipv4Text a b c d)"
      by (auto simp add: ipv4Text_def showNat_values matches172_def)
    then show ?thesis by (simp add: blockedPatterns_def)
  next
    case 5
    then show ?thesis
      by (simp add: ipv4Text_def showNat_values blockedPatterns_def startsWith_def)
  next
    case 6
    then show ?thesis
      by (simp add: ipv4Text_def showNat_values blockedPatterns_def startsWith_def)
  qed
qed

text \<open>Every address of 127.0.0.0/8, 10.0.0.0/8, 0.0.0.0/8, 172.16.0.0/12,
  192.168.0.0/16 and 169.254.0.0/16, written in dotted decimal, is blocked by both copies
  of the predicate.\<close>

theorem private_ipv4_blocked:
  assumes "a = 127 \<or> a = 10 \<or> a = 0 \<or> (a = 172 \<and> 16 \<le> b \<and> b \<le> 31) \<or>
      (a = 192 \<and> b = 168) \<or> (a = 169 \<and> b = 254)"
  shows "isBlockedIP_js (ipv4Text a b c d) \<and> isBlockedIP_ts (ipv4Text a b c d)"
  using ipv4Text_shape [of a b c d] ipv4_patterns [OF assms, of c d]
  by (simp add: blockedPatterns_blocked)

text \<open>The TypeScript copy unwraps a mapped address: the answer for \<^verbatim>\<open>::ffff:\<close> followed
  by \<open>v4\<close> is the answer for \<open>v4\<close>.\<close>

lemma isBlockedIP_ts_mapped:
  assumes "v4 \<noteq> []" and "last v4 \<noteq> CHR '']''"
  shows "isBlockedIP_ts (''::ffff:'' @ v4) = isBlockedIP_ts v4"
proof -
  have "stripBrackets (''::ffff:'' @ v4) = ''::ffff:'' @ v4"
    using assms by (simp add: stripBrackets_id)
  then show ?thesis
    by (subst isBlockedIP_ts.simps)
       (simp add: startsWith_def toLowerCase_def toLowerChar_def upper_letters_def lower_letters_def)
qed

theorem mapped_private_ipv4_blocked_ts:
  assumes "a = 127 \<or> a = 10 \<or> a = 0 \<or> (a = 172 \<and> 16 \<le> b \<and> b \<le> 31) \<or>
      (a = 192 \<and> b = 168) \<or> (a = 169 \<and> b = 254)"
  shows "isBlockedIP_ts (''::ffff:'' @ ipv4Text a b c d)"
proof -
  from ipv4Text_shape [of a b c d]
  have "isBlockedIP_ts (''::ffff:'' @ ipv4Text a b c d) = isBlockedIP_ts (ipv4Text a b c d)"
    by (intro isBlockedIP_ts_mapped) simp_all
  with private_ipv4_blocked [OF assms, of c d] show ?thesis by (simp only:)
qed

subsection \<open>The validator on addresses of the private IPv4 ranges\<close>

lemma showNat_chars: "set (showNat n) \<subseteq> set ''0123456789''"
proof (induction n rule: showNat.induct)
  case (1 n)
  show ?case
  proof (cases "n < 10")
    case True
    then have "showNat n = [digitChar n]" by (subst showNat.simps) simp
    with True digitChar_digit [of n] show ?thesis by simp
  next
    case False
    then have e: "showNat n = showNat (n div 10) @ [digitChar (n mod 10)]"
      by (subst showNat.simps) simp
    have "digitChar (n mod 10) \<in> set ''0123456789''" by (rule digitChar_digit) simp
    with 1 False show ?thesis unfolding e by simp
  qed
qed

lemma toLowerChar_dot: "toLowerChar CHR ''.'' = CHR ''.''"
  by (simp add: toLowerChar_def upper_letters_def lower_letters_def)

lemma toLowerCase_showNat: "toLowerCase (showNat n) = showNat n"
  unfolding toLowerCase_def
  by (rule map_idI) (use showNat_chars [of n] toLowerChar_digit in blast)

lemma toLowerCase_ipv4Text: "toLowerCase (ipv4Text a b c d) = ipv4Text a b c d"
proof -
  have "toLowerCase (xs @ ys) = toLowerCase xs @ toLowerCase ys" for xs ys
    by (simp add: toLowerCase_def)
  moreover have "toLowerCase ''.'' = ''.''"
    by (simp add: toLowerCase_def toLowerChar_dot)
  ultimately show ?thesis
    by (simp only: ipv4Text_def toLowerCase_showNat)
qed

lemma ipv4Text_not_name:
  "ipv4Text a b c d \<notin> set [''localhost'', ''metadata.google.internal'', ''metadata'']"
proof
  assume "ipv4Text a b c d \<in> set [''localhost'', ''metadata.google.internal'', ''metadata'']"
  then have "hd (ipv4Text a b c d) = CHR ''l'' \<or> hd (ipv4Text a b c d) = CHR ''m''"
    by auto
  with ipv4Text_shape [of a b c d] show False by auto
qed

lemma includesStr_append: "includesStr ys sub \<Longrightarrow> includesStr (xs @ ys) sub"
  by (induction xs) simp_all

text \<open>The error the validator throws for a blocked resolved address passes through
  its own \<^verbatim>\<open>catch\<close> block unchanged.\<close>

lemma lookupCatch_resolvesInternal:
  "lookupCatch host (resolvesInternal host) = Rethrown (resolvesInternal host)"
proof -
  have "includesStr '' resolves to internal/private IP address'' ''resolves to internal''"
    by code_simp
  then have "includesStr (''Domain '' @ host @ '' resolves to internal/private IP address'')
      ''resolves to internal''"
    by (intro includesStr_append)
  then show ?thesis
    by (simp add: lookupCatch_def resolvesInternal_def)
qed

text \<open>A URL whose host is a literal address of the private IPv4 ranges is rejected by
  both validators as an internal address.\<close>

theorem private_ipv4_rejected:
  assumes range: "a = 127 \<or> a = 10 \<or> a = 0 \<or> (a = 172 \<and> 16 \<le> b \<and> b \<le> 31) \<or>
      (a = 192 \<and> b = 168) \<or> (a = 169 \<and> b = 254)"
    and parsed: "parseURL env url = Some p" "protocol p = ''https:''"
      "hostname p = ipv4Text a b c d"
    and ip: "isIPv4 env (ipv4Text a b c d)"
  shows "validateImageUrl_js env url = Inl BlockedLiteralIP \<and>
         validateImageUrl_ts env url = Inl BlockedLiteralIP"
proof -
  have st: "stripBrackets (ipv4Text a b c d) = ipv4Text a b c d"
    using ipv4Text_shape [of a b c d] by (intro stripBrackets_id) auto
  show ?thesis
    using private_ipv4_blocked [OF range, of c d] ipv4Text_not_name [of a b c d] parsed ip
    by (simp add: validateImageUrl_js_def validateImageUrl_ts_def validateImageUrl_with_def
        toLowerCase_ipv4Text st Let_def del: set_simps)
qed

text \<open>A URL whose host is a domain name that resolves to an address of the private IPv4
  ranges is rejected by both validators.\<close>

theorem resolved_private_ipv4_rejected:
  assumes range: "a = 127 \<or> a = 10 \<or> a = 0 \<or> (a = 172 \<and> 16 \<le> b \<and> b \<le> 31) \<or>
      (a = 192 \<and> b = 168) \<or> (a = 169 \<and> b = 254)"
    and parsed: "parseURL env url = Some p" "protocol p = ''https:''"
    and name: "stripBrackets (toLowerCase (hostname p))
        \<notin> set [''localhost'', ''metadata.google.internal'', ''metadata'']"
      "\<not> isIPv4 env (stripBrackets (toLowerCase (hostname p)))"
      "\<not> isIPv6 env (stripBrackets (toLowerCase (hostname p)))"
    and dns: "lookup env (toLowerCase (hostname p)) = Inr (ipv4Text a b c d)"
  shows "validateImageUrl_js env url = Inl (Rethrown (resolvesInternal (toLowerCase (hostname p)))) \<and>
         validateImageUrl_ts env url = Inl (Rethrown (resolvesInternal (toLowerCase (hostname p))))"
  using private_ipv4_blocked [OF range, of c d] parsed name dns
  by (simp add: validateImageUrl_js_def validateImageUrl_ts_def validateImageUrl_with_def
      lookupCatch_resolvesInternal Let_def del: set_simps)

text \<open>The validator of the TypeScript source rejects a URL whose host is a domain name
  that resolves to the mapped form of an address of the private IPv4 ranges.\<close>

theorem resolved_mapped_private_ipv4_rejected_ts:
  assumes range: "a = 127 \<or> a = 10 \<or> a = 0 \<or> (a = 172 \<and> 16 \<le> b \<and> b \<le> 31) \<or>
      (a = 192 \<and> b = 168) \<or> (a = 169 \<and> b = 254)"
    and parsed: "parseURL env url = Some p" "protocol p = ''https:''"
    and name: "stripBrackets (toLowerCase (hostname p))
        \<notin> set [''localhost'', ''metadata.google.internal'', ''metadata'']"
      "\<not> isIPv4 env (stripBrackets (toLowerCase (hostname p)))"
      "\<not> isIPv6 env (stripBrackets (toLowerCase (hostname p)))"
    and dns: "lookup env (toLowerCase (hostname p)) = Inr (''::ffff:'' @ ipv4Text a b c d)"
  shows "validateImageUrl_ts env url
      = Inl (Rethrown (resolvesInternal (toLowerCase (hostname p))))"
  using mapped_private_ipv4_blocked_ts [OF range, of c d] parsed name dns
  by (simp add: validateImageUrl_ts_def validateImageUrl_with_def
      lookupCatch_resolvesInternal Let_def del: set_simps)

text \<open>The predicate reads the text of an address. Spelt with hexadecimal groups, as
  the URL parser hands a host over, the mapped form of 10.0.0.1 is unwrapped to
  \<^verbatim>\<open>a00:1\<close>, which nothing blocks.\<close>

lemma mapped_hex_spelling_not_blocked: "isBlockedIP_ts ''::ffff:a00:1'' = False"
  by code_simp

subsection \<open>The listed names and the IPv6 prefixes\<close>

text \<open>The names and addresses the predicate lists are blocked by both copies.\<close>

lemma listed_hosts_blocked:
  assumes "h \<in> set [''localhost'', ''127.0.0.1'', ''::1'', ''metadata.google.internal'',
      ''metadata'', ''169.254.169.254'']"
  shows "isBlockedIP_js h \<and> isBlockedIP_ts h"
proof -
  have "\<forall>x \<in> set [''localhost'', ''127.0.0.1'', ''::1'', ''metadata.google.internal'',
      ''metadata'', ''169.254.169.254'']. isBlockedIP_js x \<and> isBlockedIP_ts x"
    by code_simp
  with assms show ?thesis by blast
qed

text \<open>Of the IPv6 ranges, both copies block the addresses whose text starts with
  \<^verbatim>\<open>fe80:\<close>, \<^verbatim>\<open>fc00:\<close> or \<^verbatim>\<open>fd00:\<close>.\<close>

lemma ipv6_prefix_blocked:
  assumes p: "p \<in> set [''fe80:'', ''fc00:'', ''fd00:'']"
    and l: "rest = [] \<or> last rest \<noteq> CHR '']''"
  shows "isBlockedIP_js (p @ rest) \<and> isBlockedIP_ts (p @ rest)"
proof -
  from p have shape: "p @ rest \<noteq> []" "hd (p @ rest) = CHR ''f''" "last p = CHR '':''" "p \<noteq> []"
    by auto
  from l shape have "last (p @ rest) \<noteq> CHR '']''" by (cases "rest = []") simp_all
  with shape have st: "stripBrackets (p @ rest) = p @ rest"
    by (intro stripBrackets_id) simp_all
  from p have "blockedPatterns (p @ rest)"
    by (auto simp add: blockedPatterns_def startsWith_def)
  then have bc: "blockedClean (p @ rest)" by (simp add: blockedClean_def)
  from p have "\<not> startsWith (toLowerCase (p @ rest)) ''::ffff:''"
    by (auto simp add: startsWith_def toLowerCase_def toLowerChar_def upper_letters_def
        lower_letters_def)
  with st bc show ?thesis by (simp add: isBlockedIP_js_def isBlockedIP_ts.simps)
qed

subsection \<open>The claims on the validator\<close>

text \<open>C2, at the input \<^verbatim>\<open>::ffff:10.0.0.1\<close>: the JavaScript copy of the predicate
  answers \<open>False\<close> and the TypeScript copy answers \<open>True\<close>, so the two copies are not
  extensionally equal.\<close>

theorem isBlockedIP_copies_differ:
  "isBlockedIP_js ''::ffff:10.0.0.1'' = False \<and> isBlockedIP_ts ''::ffff:10.0.0.1'' = True"
  by (simp add: isBlockedIP_js_def isBlockedIP_ts.simps blockedClean_def blockedPatterns_def
      matches172_def startsWith_def stripBrackets_def toLowerCase_def toLowerChar_def
      upper_letters_def lower_letters_def)

text \<open>C3, at the mapped form of 10.0.0.1. Written in the URL, the host reaches the
  validator as \<^verbatim>\<open>[::ffff:a00:1]\<close>, and both validators accept the URL. As the address a
  domain resolves to, \<^verbatim>\<open>::ffff:10.0.0.1\<close>, the validator of \<^verbatim>\<open>utils.js\<close> accepts the URL,
  where the validator of the TypeScript source rejects it.\<close>

theorem mapped_address_accepted:
  "validateImageUrl_js mappedLiteralEnv mappedUrl = Inr mappedUrl \<and>
   validateImageUrl_ts mappedLiteralEnv mappedUrl = Inr mappedUrl \<and>
   validateImageUrl_js mappedDnsEnv evilUrl = Inr evilUrl \<and>
   validateImageUrl_ts mappedDnsEnv evilUrl = Inl (Rethrown (resolvesInternal ''evil.com''))"
  by code_simp

text \<open>C4, at the unique-local address \<^verbatim>\<open>fd12:3456:789a:1::1\<close> (in \<^verbatim>\<open>fc00::/7\<close>) and at
  the link-local address \<^verbatim>\<open>febf::1\<close> (in \<^verbatim>\<open>fe80::/10\<close>): neither copy of the predicate
  blocks them, and both validators accept a URL whose host is the first.\<close>

theorem unique_local_not_blocked:
  "isBlockedIP_js ''fd12:3456:789a:1::1'' = False \<and>
   isBlockedIP_ts ''fd12:3456:789a:1::1'' = False \<and>
   isBlockedIP_js ''febf::1'' = False \<and>
   isBlockedIP_ts ''febf::1'' = False \<and>
   validateImageUrl_js uniqueLocalEnv uniqueLocalUrl = Inr uniqueLocalUrl \<and>
   validateImageUrl_ts uniqueLocalEnv uniqueLocalUrl = Inr uniqueLocalUrl"
  by code_simp

section \<open>Properties of the client\<close>

lemma redact_short: "length key < 8 \<Longrightarrow> redactApiKey (Some key) = ''[REDACTED]''"
  by (simp add: redactApiKey_def)

lemma redact_long:
  "8 \<le> length key \<Longrightarrow> redactApiKey (Some key) = ''sk-...'' @ drop (length key - 4) key"
  by (auto simp add: redactApiKey_def)

text \<open>C7. A key shorter than 8 characters is redacted to the placeholder
  \<^verbatim>\<open>[REDACTED]\<close>, the same for every such key. A key of at least 8 characters is
  redacted to \<^verbatim>\<open>sk-...\<close> followed by its last 4 characters: for a key \<open>pre @ [a, b, c, d]\<close>
  the result is \<^verbatim>\<open>sk-...\<close> and \<open>a\<close>, \<open>b\<close>, \<open>c\<close>, \<open>d\<close>, in which \<open>pre\<close> does not occur.\<close>

theorem redactApiKey_spec:
  "(length key < 8 \<longrightarrow> redactApiKey (Some key) = ''[REDACTED]'') \<and>
   (8 \<le> length key \<longrightarrow>
      redactApiKey (Some key) = ''sk-...'' @ drop (length key - 4) key \<and>
      length (drop (length key - 4) key) = 4) \<and>
   (4 \<le> length pre \<longrightarrow> redactApiKey (Some (pre @ [a, b, c, d])) = ''sk-...'' @ [a, b, c, d]) \<and>
   (length key < 8 \<and> length key' < 8 \<longrightarrow> redactApiKey (Some key) = redactApiKey (Some key'))"
proof (intro conjI impI)
  assume "length key < 8"
  then show "redactApiKey (Some key) = ''[REDACTED]''" by (rule redact_short)
next
  assume l: "8 \<le> length key"
  then show "redactApiKey (Some key) = ''sk-...'' @ drop (length key - 4) key"
    by (rule redact_long)
  from l show "length (drop (length key - 4) key) = 4" by simp
next
  assume "4 \<le> length pre"
  then have "8 \<le> length (pre @ [a, b, c, d])" by simp
  then have "redactApiKey (Some (pre @ [a, b, c, d])) =
        ''sk-...'' @ drop (length (pre @ [a, b, c, d]) - 4) (pre @ [a, b, c, d])"
    by (rule redact_long)
  then show "redactApiKey (Some (pre @ [a, b, c, d])) = ''sk-...'' @ [a, b, c, d]" by simp
next
  assume "length key < 8 \<and> length key' < 8"
  then show "redactApiKey (Some key) = redactApiKey (Some key')"
    by (simp add: redact_short)
qed

theorem redactApiKey_spec_witness:
  "redactApiKey (Some ''sk-test'') = ''[REDACTED]'' \<and>
   redactApiKey (Some ''sk-test1234567890'') = ''sk-...7890''"
  using redactApiKey_spec [where key = "''sk-test''" and key' = "''sk-abc''"
      and pre = "''sk-test123456''" and a = "CHR ''7''" and b = "CHR ''8''"
      and c = "CHR ''9''" and d = "CHR ''0''"]
  by simp

lemma newClient_Inr:
  "newClient envKey opts = Inr c \<Longrightarrow>
     (baseUrl c = [] \<or> startsWith (baseUrl c) ''https://'') \<and> lastRequestTime c = 0"
  by (auto simp add: newClient_def Let_def split: if_splits sum.splits option.splits)

lemma newClient_example: "newClient None exampleOptions = Inr exampleClient"
  by (simp add: newClient_def exampleOptions_def exampleClient_def BASE_URL_def startsWith_def)

text \<open>C9, as amended. The constructor throws for every base URL that is not empty and
  does not start with \<^verbatim>\<open>https://\<close>; the base URL of a client that was constructed is
  empty or starts with \<^verbatim>\<open>https://\<close>.\<close>

theorem newClient_https:
  "(b \<noteq> [] \<and> \<not> startsWith b ''https://'' \<longrightarrow>
      newClient envKey (opts\<lparr>opt_baseUrl := Some b\<rparr>) = Inl HttpsRequired) \<and>
   (newClient envKey opts = Inr c \<longrightarrow> baseUrl c = [] \<or> startsWith (baseUrl c) ''https://'')"
  using newClient_Inr [of envKey opts c]
  by (auto simp add: newClient_def)

theorem newClient_https_witness:
  "newClient None \<lparr>opt_apiKey = Some ''sk-key'', opt_baseUrl = Some ''http://api.openai.com'',
      opt_rateLimitDelay = None\<rparr> = Inl HttpsRequired \<and>
   startsWith (baseUrl exampleClient) ''https://''"
  using newClient_https [of "''http://api.openai.com''" None exampleOptions exampleClient]
  by (simp add: startsWith_def newClient_example exampleOptions_def exampleClient_def)

text \<open>C9 as stated fails at the empty base URL: it does not start with \<^verbatim>\<open>https://\<close>,
  the constructor does not throw, and the client holds it.\<close>

theorem newClient_empty_baseUrl:
  "\<not> startsWith [] ''https://'' \<and>
   newClient (Some ''sk-key'')
       \<lparr>opt_apiKey = None, opt_baseUrl = Some [], opt_rateLimitDelay = None\<rparr>
     = Inr \<lparr>apiKey = ''sk-key'', baseUrl = [], rateLimitDelay = 1000, lastRequestTime = 0\<rparr>"
  by (simp add: newClient_def startsWith_def getOpenAIApiKey_def)







text \<open>C10. On a client built by the constructor the first request waits for no pacing
  delay, whatever the configured delay: the pacing test answers \<open>None\<close> and
  \<^verbatim>\<open>lastRequestTime\<close> becomes the clock reading, no delay added. The delay applies from
  the second request on: entered at \<open>t2\<close>, less than the configured delay after the
  first, it waits for the remainder.\<close>

theorem first_request_unpaced:
  "newClient envKey opts = Inr c \<Longrightarrow>
     pacingWait c now = None \<and>
     rateLimit c now late = (c\<lparr>lastRequestTime := now + late\<rparr>, now + late) \<and>
     (0 < now + late \<and> int t2 - int (now + late) < rateLimitDelay c \<longrightarrow>
        pacingWait (fst (rateLimit c now late)) t2
          = Some (nat (rateLimitDelay c - (int t2 - int (now + late)))))"
proof -
  assume "newClient envKey opts = Inr c"
  then have z: "lastRequestTime c = 0" using newClient_Inr by blast
  then have p: "pacingWait c now = None" by (simp add: pacingWait_def)
  then have r: "rateLimit c now late = (c\<lparr>lastRequestTime := now + late\<rparr>, now + late)"
    by (simp add: rateLimit_def Let_def)
  show ?thesis using p r by (simp add: pacingWait_def)
qed

theorem first_request_unpaced_witness:
  "pacingWait exampleClient 5000 = None \<and>
   rateLimit exampleClient 5000 2 = (exampleClient\<lparr>lastRequestTime := 5002\<rparr>, 5002) \<and>
   pacingWait (fst (rateLimit exampleClient 5000 2)) 5302 = Some 700"
proof -
  have d: "rateLimitDelay exampleClient = 1000" by (simp add: exampleClient_def)
  show ?thesis using first_request_unpaced [OF newClient_example, of 5000 2 5302]
    by (auto simp add: d)
qed

section \<open>Properties of the error classification\<close>

lemma classify_no_response:
  "\<not> isCancellation e \<Longrightarrow> err_response e = None \<Longrightarrow>
     classifyError env e = Network (err_message e)"
  by (simp add: classifyError_def)

lemma classify_response:
  "\<not> isCancellation e \<Longrightarrow> err_response e = Some r \<Longrightarrow>
     classifyError env e =
       (if resp_status r = 401 then Unauthorized
        else if resp_status r = 400 then BadRequest (sanitizeErrorMessage env e 400)
        else if resp_status r = 404 then NotFound (sanitizeErrorMessage env e 404)
        else if resp_status r = 429 then RateLimited
        else if resp_status r \<in> {500, 502, 503} then ServiceUnavailable
        else Unclassified (resp_status r) (sanitizeErrorMessage env e (resp_status r)))"
  by (simp add: classifyError_def Let_def)

lemma sanitize_production:
  "sanitizeErrorMessage (Some ''production'') e s =
     (if s = 400 then ''Invalid request parameters''
      else if s = 401 then ''Authentication failed''
      else if s = 403 then ''Access forbidden''
      else if s = 404 then ''Resource not found''
      else if s = 429 then ''Rate limit exceeded''
      else if s = 500 then ''Service error''
      else if s = 502 \<or> s = 503 then ''Service temporarily unavailable''
      else ''An error occurred'')"
  by (simp add: sanitizeErrorMessage_def genericMessages_def)

lemma sanitize_development:
  "env \<noteq> Some ''production'' \<Longrightarrow> err_response e = Some r \<Longrightarrow> resp_detail r = Some d \<Longrightarrow>
     d \<noteq> [] \<Longrightarrow> sanitizeErrorMessage env e s = d"
  by (simp add: sanitizeErrorMessage_def)

text \<open>C1, as amended. For a failed request that is not a cancellation: with no response
  the error is \<open>Network\<close>; with a response, status 401 gives \<open>Unauthorized\<close>, 400
  \<open>BadRequest\<close>, 404 \<open>NotFound\<close>, 429 \<open>RateLimited\<close>, 500, 502 and 503
  \<open>ServiceUnavailable\<close>, and any other status \<open>Unclassified\<close> with that status. In
  production mode the detail text is a fixed phrase for each status, the same whatever
  the error; outside production mode an upstream detail that is present and not empty is
  passed through.\<close>

theorem classifyError_spec:
  "\<not> isCancellation e \<Longrightarrow>
     (err_response e = None \<longrightarrow> classifyError env e = Network (err_message e)) \<and>
     (\<forall>r. err_response e = Some r \<longrightarrow>
        (resp_status r = 401 \<longrightarrow> classifyError env e = Unauthorized) \<and>
        (resp_status r = 400 \<longrightarrow>
           classifyError env e = BadRequest (sanitizeErrorMessage env e 400)) \<and>
        (resp_status r = 404 \<longrightarrow>
           classifyError env e = NotFound (sanitizeErrorMessage env e 404)) \<and>
        (resp_status r = 429 \<longrightarrow> classifyError env e = RateLimited) \<and>
        (resp_status r \<in> {500, 502, 503} \<longrightarrow> classifyError env e = ServiceUnavailable) \<and>
        (resp_status r \<notin> {401, 400, 404, 429, 500, 502, 503} \<longrightarrow>
           classifyError env e =
             Unclassified (resp_status r) (sanitizeErrorMessage env e (resp_status r)))) \<and>
     sanitizeErrorMessage (Some ''production'') e 400 = ''Invalid request parameters'' \<and>
     sanitizeErrorMessage (Some ''production'') e 401 = ''Authentication failed'' \<and>
     sanitizeErrorMessage (Some ''production'') e 403 = ''Access forbidden'' \<and>
     sanitizeErrorMessage (Some ''production'') e 404 = ''Resource not found'' \<and>
     sanitizeErrorMessage (Some ''production'') e 429 = ''Rate limit exceeded'' \<and>
     sanitizeErrorMessage (Some ''production'') e 500 = ''Service error'' \<and>
     sanitizeErrorMessage (Some ''production'') e 502 = ''Service temporarily unavailable'' \<and>
     sanitizeErrorMessage (Some ''production'') e 503 = ''Service temporarily unavailable'' \<and>
     (s \<notin> {400, 401, 403, 404, 429, 500, 502, 503} \<longrightarrow>
        sanitizeErrorMessage (Some ''production'') e s = ''An error occurred'') \<and>
     sanitizeErrorMessage (Some ''production'') e s
       = sanitizeErrorMessage (Some ''production'') e' s \<and>
     (\<forall>r d. env \<noteq> Some ''production'' \<and> err_response e = Some r \<and>
        resp_detail r = Some d \<and> d \<noteq> [] \<longrightarrow> sanitizeErrorMessage env e s = d)"
proof -
  assume nc: "\<not> isCancellation e"
  have a: "err_response e = None \<longrightarrow> classifyError env e = Network (err_message e)"
    using nc by (simp add: classify_no_response)
  have b: "\<forall>r. err_response e = Some r \<longrightarrow>
        (resp_status r = 401 \<longrightarrow> classifyError env e = Unauthorized) \<and>
        (resp_status r = 400 \<longrightarrow>
           classifyError env e = BadRequest (sanitizeErrorMessage env e 400)) \<and>
        (resp_status r = 404 \<longrightarrow>
           classifyError env e = NotFound (sanitizeErrorMessage env e 404)) \<and>
        (resp_status r = 429 \<longrightarrow> classifyError env e = RateLimited) \<and>
        (resp_status r \<in> {500, 502, 503} \<longrightarrow> classifyError env e = ServiceUnavailable) \<and>
        (resp_status r \<notin> {401, 400, 404, 429, 500, 502, 503} \<longrightarrow>
           classifyError env e =
             Unclassified (resp_status r) (sanitizeErrorMessage env e (resp_status r)))"
    using nc by (auto simp add: classify_response)
  have c: "s \<notin> {400, 401, 403, 404, 429, 500, 502, 503} \<longrightarrow>
        sanitizeErrorMessage (Some ''production'') e s = ''An error occurred''"
    by (simp add: sanitize_production)
  have d: "sanitizeErrorMessage (Some ''production'') e s
         = sanitizeErrorMessage (Some ''production'') e' s"
    by (simp only: sanitize_production)
  have f: "\<forall>r d. env \<noteq> Some ''production'' \<and> err_response e = Some r \<and>
        resp_detail r = Some d \<and> d \<noteq> [] \<longrightarrow> sanitizeErrorMessage env e s = d"
    by (auto simp add: sanitize_development)
  show ?thesis using a b c d f by (simp add: sanitize_production)
qed

theorem classifyError_spec_witness:
  "classifyError None notFoundError = NotFound ''Video not found'' \<and>
   classifyError (Some ''production'') notFoundError = NotFound ''Resource not found''"
proof -
  have nc: "\<not> isCancellation notFoundError"
    by (simp add: isCancellation_def notFoundError_def)
  have r: "err_response notFoundError
      = Some \<lparr>resp_status = 404, resp_detail = Some ''Video not found''\<rparr>"
    by (simp add: notFoundError_def)
  show ?thesis
    using classifyError_spec [OF nc, of None 404 notFoundError]
      classifyError_spec [OF nc, of "Some ''production''" 404 notFoundError]
    by (simp add: r)
qed

text \<open>C1 as stated fails at a cancelled request: it has no response, and the error is
  \<open>Cancelled\<close>, not \<open>Network\<close>.\<close>

theorem classifyError_cancelled:
  "err_response cancelledError = None \<and>
   classifyError None cancelledError = Cancelled \<and>
   classifyError None cancelledError \<noteq> Network (err_message cancelledError)"
  by (simp add: classifyError_def isCancellation_def cancelledError_def)

section \<open>Properties of the polling loop\<close>

lemma pollLoop_aborted:
  "signalAborted env (clock s) \<Longrightarrow>
     pollLoop (Suc fuel) env interval timeout startTime s = (Some (Inl PollCancelled), s)"
  by simp

lemma pollLoop_timeout:
  "\<not> signalAborted env (clock s) \<Longrightarrow> clock s - startTime > timeout \<Longrightarrow>
   pollLoop (Suc fuel) env interval timeout startTime s = (Some (Inl (PollTimedOut timeout)), s)"
  by simp

text \<open>Every call of \<^verbatim>\<open>api.retrieveVideo\<close> is made at a time when the signal is not
  aborted: an invariant of the loop.\<close>

lemma pollLoop_fetches:
  "pollLoop fuel env interval timeout startTime s = (r, s') \<Longrightarrow>
   \<forall>t \<in> set (fetchTimes s). \<not> signalAborted env t \<Longrightarrow>
   \<forall>t \<in> set (fetchTimes s'). \<not> signalAborted env t"
proof (induction fuel arbitrary: s)
  case 0
  then show ?case by simp
next
  case (Suc fuel)
  show ?case
  proof (cases "signalAborted env (clock s) \<or> clock s - startTime > timeout")
    case True
    with Suc.prems show ?thesis by (auto split: if_splits)
  next
    case False
    let ?i = "length (fetchTimes s)"
    let ?s1 = "s\<lparr>clock := clock s + fetchLatency env ?i, fetchTimes := fetchTimes s @ [clock s]\<rparr>"
    from False Suc.prems(2) have inv1: "\<forall>t \<in> set (fetchTimes ?s1). \<not> signalAborted env t"
      by auto
    show ?thesis
    proof (cases "fetchResult env ?i")
      case (Inl e)
      with False Suc.prems(1) have "s' = ?s1" by (simp add: Let_def)
      with inv1 show ?thesis by simp
    next
      case (Inr v)
      show ?thesis
      proof (cases "vid_status v = ''completed'' \<or> vid_status v = ''failed''")
        case True
        with Inr False Suc.prems(1) have "s' = ?s1" by (auto simp add: Let_def split: if_splits)
        with inv1 show ?thesis by simp
      next
        case nt: False
        let ?s2 = "?s1\<lparr>clock := clock ?s1 + interval + timerLate env ?i\<rparr>"
        from nt Inr False Suc.prems(1)
        have run: "pollLoop fuel env interval timeout startTime ?s2 = (r, s')"
          by (simp add: Let_def)
        from inv1 have "\<forall>t \<in> set (fetchTimes ?s2). \<not> signalAborted env t" by simp
        with run show ?thesis by (rule Suc.IH)
      qed
    qed
  qed
qed

text \<open>C5. On a client with a key and for a job id that is not empty: called with a
  signal that is already aborted, \<^verbatim>\<open>waitForVideo\<close> fails with the cancellation error and
  has called \<^verbatim>\<open>api.retrieveVideo\<close> zero times; in any session, however long it runs,
  every call of \<^verbatim>\<open>api.retrieveVideo\<close> was made at a time when the signal was not aborted;
  and an iteration that starts with the signal aborted ends the loop with the
  cancellation error, the state unchanged.\<close>

theorem cancellation_stops_polling:
  "apiKey c \<noteq> [] \<Longrightarrow> videoId \<noteq> [] \<Longrightarrow>
     (signalAborted env t0 \<longrightarrow>
        waitForVideo (Suc fuel) c env videoId options t0
          = (Some (Inl (Poll PollCancelled)), \<lparr>clock = t0, fetchTimes = []\<rparr>)) \<and>
     (\<forall>t \<in> set (fetchTimes (snd (waitForVideo fuel c env videoId options t0))).
        \<not> signalAborted env t) \<and>
     (\<forall>interval timeout startTime (s :: poll_state). signalAborted env (clock s) \<longrightarrow>
        pollLoop (Suc fuel) env interval timeout startTime s = (Some (Inl PollCancelled), s))"
proof (intro conjI impI allI)
  assume k: "apiKey c \<noteq> []" and v: "videoId \<noteq> []"
  {
    assume "signalAborted env t0"
    then show "waitForVideo (Suc fuel) c env videoId options t0
          = (Some (Inl (Poll PollCancelled)), \<lparr>clock = t0, fetchTimes = []\<rparr>)"
      using k v by (simp add: waitForVideo_def pollVideoWithProgress_def)
  }
  obtain r s' where p: "pollVideoWithProgress fuel env options t0 = (r, s')"
    by (cases "pollVideoWithProgress fuel env options t0")
  then have "\<forall>t \<in> set (fetchTimes s'). \<not> signalAborted env t"
    unfolding pollVideoWithProgress_def Let_def
    by (rule pollLoop_fetches) simp
  moreover have "snd (waitForVideo fuel c env videoId options t0) = s'"
    using k v p by (simp add: waitForVideo_def split: option.splits sum.splits)
  ultimately show "\<forall>t \<in> set (fetchTimes (snd (waitForVideo fuel c env videoId options t0))).
        \<not> signalAborted env t"
    by simp
next
  fix interval timeout startTime and s :: poll_state
  assume "signalAborted env (clock s)"
  then show "pollLoop (Suc fuel) env interval timeout startTime s = (Some (Inl PollCancelled), s)"
    by (rule pollLoop_aborted)
qed

theorem cancellation_stops_polling_witness:
  "waitForVideo 1 exampleClient abortedEnv ''video_123'' shortOptions 1000
     = (Some (Inl (Poll PollCancelled)), \<lparr>clock = 1000, fetchTimes = []\<rparr>) \<and>
   fetchTimes (snd (waitForVideo 10 exampleClient abortLaterEnv ''video_123''
       \<lparr>opt_interval = Some 100, opt_timeout = Some 2000\<rparr> 1000)) = [1000, 1120] \<and>
   \<not> signalAborted abortLaterEnv 1000 \<and> \<not> signalAborted abortLaterEnv 1120
   \<and> signalAborted abortLaterEnv 1240"
proof -
  have k: "apiKey exampleClient \<noteq> []" by (simp add: exampleClient_def)
  have v: "''video_123'' \<noteq> []" by simp
  have a: "signalAborted abortedEnv 1000" by (simp add: signalAborted_def abortedEnv_def)
  have f: "fetchTimes (snd (waitForVideo 10 exampleClient abortLaterEnv ''video_123''
       \<lparr>opt_interval = Some 100, opt_timeout = Some 2000\<rparr> 1000)) = [1000, 1120]"
    by code_simp
  have l: "signalAborted abortLaterEnv 1240" by (simp add: signalAborted_def abortLaterEnv_def)
  show ?thesis
    using cancellation_stops_polling [OF k v, of abortedEnv 1000 0 shortOptions]
      cancellation_stops_polling [OF k v, of abortLaterEnv 1000 10
        "\<lparr>opt_interval = Some 100, opt_timeout = Some 2000\<rparr>"]
    by (simp add: a f l)
qed

text \<open>C6, as amended. For a job that every call reports as in progress, with no
  cancellation, interval 100 and timeout 200, and every pause lasting at least the
  interval: the session ends with the timeout error (within four iterations) after at
  most 3 calls of \<^verbatim>\<open>api.retrieveVideo\<close>, and after at most 2 when any time at all was
  spent in the first two calls or beyond the first two intervals. The elapsed time is
  counted from the start of the session and compared at the head of an iteration: when
  it exceeds the timeout there, the loop ends with no further call.\<close>

theorem poll_times_out:
  assumes na: "abortAt env = None"
    and ip: "\<And>i. \<exists>v. fetchResult env i = Inr v \<and> vid_status v = ''in_progress''"
    and fuel: "4 \<le> fuel"
  shows "fst (pollVideoWithProgress fuel env shortOptions t0) = Some (Inl (PollTimedOut 200)) \<and>
     length (fetchTimes (snd (pollVideoWithProgress fuel env shortOptions t0))) \<le> 3 \<and>
     (0 < fetchLatency env 0 + timerLate env 0 + fetchLatency env 1 + timerLate env 1 \<longrightarrow>
        length (fetchTimes (snd (pollVideoWithProgress fuel env shortOptions t0))) \<le> 2) \<and>
     (\<forall>interval timeout startTime (s :: poll_state). timeout < clock s - startTime \<longrightarrow>
        pollLoop (Suc fuel) env interval timeout startTime s
          = (Some (Inl (PollTimedOut timeout)), s))"
proof -
  define n where "n = fuel - 4"
  have n: "fuel = Suc (Suc (Suc (Suc n)))" using fuel by (simp add: n_def)
  have nab: "\<And>t. \<not> signalAborted env t" using na by (simp add: signalAborted_def)
  obtain v0 where v0: "fetchResult env 0 = Inr v0" "vid_status v0 = ''in_progress''"
    using ip [of 0] by blast
  obtain v1 where v1: "fetchResult env (Suc 0) = Inr v1" "vid_status v1 = ''in_progress''"
    using ip [of "Suc 0"] by blast
  obtain v2 where v2: "fetchResult env (Suc (Suc 0)) = Inr v2" "vid_status v2 = ''in_progress''"
    using ip [of "Suc (Suc 0)"] by blast
  have last: "\<forall>interval timeout startTime (s :: poll_state). timeout < clock s - startTime \<longrightarrow>
        pollLoop (Suc fuel) env interval timeout startTime s
          = (Some (Inl (PollTimedOut timeout)), s)"
    using nab by (simp add: pollLoop_timeout)
  have p0: "pollVideoWithProgress fuel env shortOptions t0 =
      pollLoop (Suc (Suc (Suc n))) env 100 200 t0
        \<lparr>clock = t0 + fetchLatency env 0 + 100 + timerLate env 0, fetchTimes = [t0]\<rparr>"
    unfolding pollVideoWithProgress_def shortOptions_def n
    using nab v0 by (simp add: Let_def)
  show ?thesis
  proof (cases "fetchLatency env 0 + 100 + timerLate env 0 > 200")
    case True
    then have "pollVideoWithProgress fuel env shortOptions t0 =
        (Some (Inl (PollTimedOut 200)),
         \<lparr>clock = t0 + fetchLatency env 0 + 100 + timerLate env 0, fetchTimes = [t0]\<rparr>)"
      using nab by (simp add: p0)
    then show ?thesis using last by simp
  next
    case f1: False
    let ?c1 = "t0 + fetchLatency env 0 + 100 + timerLate env 0"
    let ?c2 = "?c1 + fetchLatency env (Suc 0) + 100 + timerLate env (Suc 0)"
    have p1: "pollVideoWithProgress fuel env shortOptions t0 =
        pollLoop (Suc (Suc n)) env 100 200 t0 \<lparr>clock = ?c2, fetchTimes = [t0, ?c1]\<rparr>"
      using nab v1 f1 by (simp add: p0 Let_def)
    show ?thesis
    proof (cases "?c2 - t0 > 200")
      case True
      then have "pollVideoWithProgress fuel env shortOptions t0 =
          (Some (Inl (PollTimedOut 200)), \<lparr>clock = ?c2, fetchTimes = [t0, ?c1]\<rparr>)"
        using nab by (simp add: p1)
      then show ?thesis using last by simp
    next
      case f2: False
      let ?c3 = "?c2 + fetchLatency env (Suc (Suc 0)) + 100 + timerLate env (Suc (Suc 0))"
      have z: "fetchLatency env 0 + timerLate env 0 + fetchLatency env 1 + timerLate env 1 = 0"
        using f2 by simp
      have "pollVideoWithProgress fuel env shortOptions t0 =
          pollLoop (Suc n) env 100 200 t0 \<lparr>clock = ?c3, fetchTimes = [t0, ?c1, ?c2]\<rparr>"
        using nab v2 f2 by (simp add: p1 Let_def)
      then have "pollVideoWithProgress fuel env shortOptions t0 =
          (Some (Inl (PollTimedOut 200)), \<lparr>clock = ?c3, fetchTimes = [t0, ?c1, ?c2]\<rparr>)"
        using nab by simp
      then show ?thesis using z last by simp
    qed
  qed
qed

theorem poll_times_out_witness:
  "pollVideoWithProgress 4 idleEnv shortOptions 0 =
     (Some (Inl (PollTimedOut 200)), \<lparr>clock = 300, fetchTimes = [0, 100, 200]\<rparr>)"
proof -
  have a: "abortAt idleEnv = None" by (simp add: idleEnv_def)
  have b: "\<And>i. \<exists>v. fetchResult idleEnv i = Inr v \<and> vid_status v = ''in_progress''"
    by (simp add: idleEnv_def inProgress_def)
  have c: "(4::nat) \<le> 4" by simp
  have "pollVideoWithProgress 4 idleEnv shortOptions 0 =
     (Some (Inl (PollTimedOut 200)), \<lparr>clock = 300, fetchTimes = [0, 100, 200]\<rparr>)"
    by code_simp
  then show ?thesis using poll_times_out [OF a b c, of 0] by simp
qed

text \<open>C6 as stated fails when no time is lost: the elapsed time at the head of the
  third iteration is 200, which does not exceed the timeout, and \<^verbatim>\<open>api.retrieveVideo\<close>
  is called a third time before the session times out.\<close>

theorem poll_three_fetches:
  "fst (pollVideoWithProgress 4 idleEnv shortOptions 0) = Some (Inl (PollTimedOut 200)) \<and>
   length (fetchTimes (snd (pollVideoWithProgress 4 idleEnv shortOptions 0))) = 3"
  by code_simp

end
